theory Spec2Isabelle
  imports Complex_Main
begin

chapter \<open>Traffic allocation and experiment results of the PostHog app for Agility CMS\<close>

text \<open>
  The development covers the split of the rollout percentage over the variants of a new
  experiment (\<open>createExperiment\<close> in \<open>CreateExperiment.tsx\<close>), the route that fetches
  the results of an experiment and reshapes them (\<open>GET\<close> and \<open>transformResults\<close>), and
  the figures the component \<open>ExperimentResults\<close> derives from them. Definitions come
  first, in the order of the source; the properties follow.
\<close>

section \<open>JavaScript numbers\<close>

text \<open>
  A JavaScript number is modelled as an exact rational or one of the three special values
  of IEEE arithmetic. Division never raises: a zero divisor gives an infinity or \<open>NaN\<close>.
  Rounding of doubles and the sign of zero are not modelled; the counts and percentages
  handled here are small integers and their quotients.
\<close>

datatype number = Fin rat | PosInf | NegInf | NaN

fun js_neg :: "number \<Rightarrow> number" where
  "js_neg (Fin a) = Fin (- a)"
| "js_neg PosInf = NegInf"
| "js_neg NegInf = PosInf"
| "js_neg NaN = NaN"

fun js_add :: "number \<Rightarrow> number \<Rightarrow> number" where
  "js_add (Fin a) (Fin b) = Fin (a + b)"
| "js_add NaN _ = NaN"
| "js_add _ NaN = NaN"
| "js_add PosInf NegInf = NaN"
| "js_add NegInf PosInf = NaN"
| "js_add PosInf _ = PosInf"
| "js_add NegInf _ = NegInf"
| "js_add (Fin a) PosInf = PosInf"
| "js_add (Fin a) NegInf = NegInf"

definition js_sub :: "number \<Rightarrow> number \<Rightarrow> number" where
  "js_sub x y = js_add x (js_neg y)"

text \<open>The sign of an infinite or finite non-zero factor, used by \<open>js_mul\<close> and \<open>js_div\<close>.\<close>

fun js_signed_inf :: "bool \<Rightarrow> number" where
  "js_signed_inf positive = (if positive then PosInf else NegInf)"

fun js_mul :: "number \<Rightarrow> number \<Rightarrow> number" where
  "js_mul (Fin a) (Fin b) = Fin (a * b)"
| "js_mul NaN _ = NaN"
| "js_mul _ NaN = NaN"
| "js_mul PosInf (Fin b) = (if b = 0 then NaN else js_signed_inf (0 < b))"
| "js_mul NegInf (Fin b) = (if b = 0 then NaN else js_signed_inf (b < 0))"
| "js_mul (Fin a) PosInf = (if a = 0 then NaN else js_signed_inf (0 < a))"
| "js_mul (Fin a) NegInf = (if a = 0 then NaN else js_signed_inf (a < 0))"
| "js_mul PosInf PosInf = PosInf"
| "js_mul NegInf NegInf = PosInf"
| "js_mul PosInf NegInf = NegInf"
| "js_mul NegInf PosInf = NegInf"

fun js_div :: "number \<Rightarrow> number \<Rightarrow> number" where
  "js_div (Fin a) (Fin b) =
     (if b = 0 then (if a = 0 then NaN else js_signed_inf (0 < a)) else Fin (a / b))"
| "js_div NaN _ = NaN"
| "js_div _ NaN = NaN"
| "js_div (Fin a) _ = Fin 0"
| "js_div PosInf (Fin b) = js_signed_inf (0 \<le> b)"
| "js_div NegInf (Fin b) = js_signed_inf (b < 0)"
| "js_div _ _ = NaN"

text \<open>\<open>Math.floor\<close>.\<close>

fun Math_floor :: "number \<Rightarrow> number" where
  "Math_floor (Fin a) = Fin (of_int \<lfloor>a\<rfloor>)"
| "Math_floor x = x"

text \<open>The comparison \<open>x < y\<close>; every comparison with \<open>NaN\<close> is false.\<close>

fun js_lt :: "number \<Rightarrow> number \<Rightarrow> bool" where
  "js_lt (Fin a) (Fin b) = (a < b)"
| "js_lt NaN _ = False"
| "js_lt _ NaN = False"
| "js_lt NegInf y = (y \<noteq> NegInf)"
| "js_lt _ NegInf = False"
| "js_lt x PosInf = (x \<noteq> PosInf)"
| "js_lt PosInf _ = False"

text \<open>Truthiness of a number: \<open>0\<close> and \<open>NaN\<close> are falsy.\<close>

fun truthy :: "number \<Rightarrow> bool" where
  "truthy (Fin a) = (a \<noteq> 0)"
| "truthy NaN = False"
| "truthy _ = True"

text \<open>\<open>x || d\<close> for an optional number \<open>x\<close> (\<open>None\<close> is \<open>undefined\<close>).\<close>

fun or_default :: "number option \<Rightarrow> number \<Rightarrow> number" where
  "or_default None d = d"
| "or_default (Some x) d = (if truthy x then x else d)"


section \<open>Traffic allocation in \<open>createExperiment\<close>\<close>

text \<open>\<open>PostHogFeatureFlagVariant\<close>: one element of \<open>parameters.feature_flag_variants\<close>.\<close>

record PostHogFeatureFlagVariant =
  flag_key :: string
  rollout_percentage :: number

text \<open>
  Lines 226 and 228 to 234 of \<open>CreateExperiment.tsx\<close>: the arithmetic, as a function of the
  list \<open>allVariants\<close> and of the number \<open>effectiveRollout\<close>. \<open>allVariants.map\<close> passes
  each element with its zero-based index.
\<close>

definition allocation :: "string list \<Rightarrow> number \<Rightarrow> PostHogFeatureFlagVariant list" where
  "allocation allVariants effectiveRollout =
     (let totalVariants = Fin (of_nat (length allVariants));
          basePercentage = Math_floor (js_div effectiveRollout totalVariants);
          remainder = js_sub effectiveRollout (js_mul basePercentage totalVariants)
      in map (\<lambda>(index, variant).
                \<lparr>flag_key = variant,
                 rollout_percentage =
                   js_add basePercentage (if js_lt (Fin (of_nat index)) remainder then Fin 1 else Fin 0)\<rparr>)
             (enumerate 0 allVariants))"

text \<open>
  Line 227: \<open>effectiveRollout = targeting.rollout_percentage || 100\<close>, where the field is
  optional in \<open>TargetingCriteria\<close>; and the list \<open>featureFlagVariants\<close> that results.
\<close>

definition effectiveRollout :: "number option \<Rightarrow> number" where
  "effectiveRollout targeting_rollout_percentage = or_default targeting_rollout_percentage (Fin 100)"

definition featureFlagVariants :: "string list \<Rightarrow> number option \<Rightarrow> PostHogFeatureFlagVariant list" where
  "featureFlagVariants allVariants targeting_rollout_percentage =
     allocation allVariants (effectiveRollout targeting_rollout_percentage)"

text \<open>
  The state \<open>targeting.rollout_percentage\<close> starts at 100 (line 75) and its only setter is
  the range input of lines 604 to 610, with \<open>min\<close> 10, \<open>max\<close> 100 and \<open>step\<close> 10: these
  are the values it takes.
\<close>

definition rollout_choices :: "int list" where
  "rollout_choices = map (\<lambda>i. 10 * i) [1..10]"

text \<open>Line 225: the list allocated over always starts with the literal \<open>control\<close>.\<close>

definition createExperiment_allVariants :: "string list \<Rightarrow> string list" where
  "createExperiment_allVariants variants = ''control'' # variants"

definition createExperiment_featureFlagVariants ::
    "string list \<Rightarrow> number option \<Rightarrow> PostHogFeatureFlagVariant list" where
  "createExperiment_featureFlagVariants variants targeting_rollout_percentage =
     featureFlagVariants (createExperiment_allVariants variants) targeting_rollout_percentage"

text \<open>
  The earlier version of the component (the second text in \<open>ExperimentResults.tsx\<close>) has
  no targeting state: the same arithmetic with the constant 100.
\<close>

definition featureFlagVariants_fixed :: "string list \<Rightarrow> PostHogFeatureFlagVariant list" where
  "featureFlagVariants_fixed allVariants = allocation allVariants (Fin 100)"


section \<open>JSON values and JavaScript objects\<close>

text \<open>
  A number read from JSON is finite and is a \<^typ>\<open>rat\<close>; a field that is absent or
  \<open>null\<close> is \<open>None\<close>. Field names of different records are told apart by a prefix
  where two records of the source share a name.
\<close>

text \<open>\<open>a ?? b\<close> where \<open>b\<close> may be absent too, and \<open>a ?? d\<close> with a default that is present.\<close>

fun nullish :: "'a option \<Rightarrow> 'a option \<Rightarrow> 'a option" where
  "nullish (Some x) _ = Some x"
| "nullish None b = b"

fun nullish_default :: "'a option \<Rightarrow> 'a \<Rightarrow> 'a" where
  "nullish_default (Some x) _ = x"
| "nullish_default None d = d"

text \<open>\<open>x || 0\<close> for an optional JSON number: absent, \<open>null\<close> and \<open>0\<close> are falsy.\<close>

fun or_zero :: "rat option \<Rightarrow> rat" where
  "or_zero None = 0"
| "or_zero (Some x) = (if x \<noteq> 0 then x else 0)"

text \<open>
  An object with string keys and numbers as values, as the list of its own properties in
  the order of their creation. The assignment \<open>obj[k] = v\<close> to a key that exists keeps
  its place; on an object literal the key \<open>__proto__\<close> is the accessor of the prototype,
  and assigning a number to it creates no property.
\<close>

type_synonym 'v object = "(string \<times> 'v) list"

fun set_property :: "'v object \<Rightarrow> string \<Rightarrow> 'v \<Rightarrow> 'v object" where
  "set_property [] k v = [(k, v)]"
| "set_property ((k', v') # obj) k v =
     (if k' = k then (k, v) # obj else (k', v') # set_property obj k v)"

definition assign :: "rat object \<Rightarrow> string \<Rightarrow> rat \<Rightarrow> rat object" where
  "assign obj k v = (if k = ''__proto__'' then obj else set_property obj k v)"

text \<open>
  \<open>Object.entries\<close> lists the keys that are array indices first, in ascending numeric
  order, then the other keys in the order of their creation. An array index is the
  canonical decimal form of an integer from 0 to \<open>2^32 - 2\<close>.
\<close>

definition is_digit :: "char \<Rightarrow> bool" where
  "is_digit c = (48 \<le> (of_char c :: int) \<and> (of_char c :: int) \<le> 57)"

definition numeric_value :: "string \<Rightarrow> int" where
  "numeric_value s = foldl (\<lambda>n c. 10 * n + (of_char c - 48)) 0 s"

definition is_array_index :: "string \<Rightarrow> bool" where
  "is_array_index s =
     (case s of
        [] \<Rightarrow> False
      | c # cs \<Rightarrow> list_all is_digit s \<and> (if c = CHR ''0'' then cs = [] else True)
                 \<and> numeric_value s < 2 ^ 32 - 1)"

definition Object_entries :: "'v object \<Rightarrow> (string \<times> 'v) list" where
  "Object_entries obj =
     sort_key (\<lambda>e. numeric_value (fst e)) (filter (\<lambda>e. is_array_index (fst e)) obj)
     @ filter (\<lambda>e. \<not> is_array_index (fst e)) obj"


section \<open>The experiment results route\<close>

text \<open>\<open>ExperimentMetric\<close>: only \<open>name\<close> and \<open>uuid\<close> are read by the route.\<close>

record ExperimentMetric =
  name :: string
  uuid :: string

text \<open>\<open>VariantData\<close>; \<open>sum_value\<close> is the field \<open>sum\<close> (\<open>sum_squares\<close> is never read).\<close>

record VariantData =
  key :: string
  number_of_samples :: "rat option"
  step_counts :: "rat list option"
  success_count :: "rat option"
  failure_count :: "rat option"
  chance_to_win :: "rat option"
  sum_value :: "rat option"

text \<open>The \<open>result\<close> of one \<open>ExperimentQuery\<close> (its own \<open>probability\<close> is never read).\<close>

record QueryResult =
  baseline :: "VariantData option"
  variant_results :: "VariantData list option"
  significant :: "bool option"
  credible_intervals :: "(rat \<times> rat) object option"

record MetricResult =
  metric :: ExperimentMetric
  result :: QueryResult

text \<open>An element of the list \<open>variants\<close> of the response (\<open>VariantResult\<close> in the component).\<close>

record VariantResult =
  vr_key :: string
  vr_count :: rat
  vr_absolute_exposure :: rat
  vr_success_count :: "rat option"
  vr_failure_count :: "rat option"

text \<open>An element of the list \<open>variants\<close> of one entry of \<open>primary_metric_results\<close>.\<close>

record MetricVariant =
  mv_key :: string
  mv_count :: "rat option"
  mv_exposure :: "rat option"
  mv_absolute_exposure :: "rat option"
  mv_success_count :: "rat option"
  mv_failure_count :: "rat option"

record PrimaryMetricResult =
  action_name :: string
  action_id :: string
  pm_variants :: "MetricVariant list"

text \<open>The value returned by \<open>transformResults\<close>.\<close>

record ExperimentResultsData =
  rd_variants :: "VariantResult list"
  rd_probability :: "rat object"
  rd_significant :: bool
  rd_credible_intervals :: "(rat \<times> rat) object"
  rd_primary_metric_results :: "PrimaryMetricResult list"

text \<open>\<open>step_counts?.[0]\<close>: absent when there is no list or the list is empty.\<close>

definition first_step_count :: "VariantData \<Rightarrow> rat option" where
  "first_step_count variant =
     (case step_counts variant of None \<Rightarrow> None | Some [] \<Rightarrow> None | Some (c # _) \<Rightarrow> Some c)"

text \<open>
  The object pushed on \<open>allVariants\<close>, for the baseline (lines 192 to 202 of the route)
  and for each element of \<open>variant_results\<close> (lines 209 to 219): the two texts differ in
  the name of the variable only.
\<close>

definition variantCount :: "VariantData \<Rightarrow> rat" where
  "variantCount variant =
     nullish_default
       (nullish (nullish (first_step_count variant) (sum_value variant)) (success_count variant)) 0"

definition allVariants_entry :: "VariantData \<Rightarrow> VariantResult" where
  "allVariants_entry variant =
     \<lparr>vr_key = key variant,
      vr_count = or_zero (number_of_samples variant),
      vr_absolute_exposure = or_zero (number_of_samples variant),
      vr_success_count = Some (variantCount variant),
      vr_failure_count = failure_count variant\<rparr>"

text \<open>The object built for each variant of each metric (lines 242 to 250 and 252 to 260).\<close>

definition metric_variant_entry :: "VariantData \<Rightarrow> MetricVariant" where
  "metric_variant_entry v =
     \<lparr>mv_key = key v,
      mv_count = Some (nullish_default (nullish (first_step_count v) (sum_value v)) 0),
      mv_exposure = Some (or_zero (number_of_samples v)),
      mv_absolute_exposure = Some (or_zero (number_of_samples v)),
      mv_success_count = nullish (nullish (first_step_count v) (sum_value v)) (success_count v),
      mv_failure_count = failure_count v\<rparr>"

text \<open>
  Lines 226 to 228 and 231 to 233 of the route: a variant adds its key only when
  \<open>chance_to_win != null\<close>.
\<close>

definition add_chance_to_win :: "rat object \<Rightarrow> VariantData \<Rightarrow> rat object" where
  "add_chance_to_win probability variant =
     (case chance_to_win variant of
        None \<Rightarrow> probability
      | Some p \<Rightarrow> assign probability (key variant) p)"

definition transformResults :: "MetricResult list \<Rightarrow> ExperimentResultsData" where
  "transformResults metricResults =
     (let primaryResult = (case metricResults of [] \<Rightarrow> None | m # _ \<Rightarrow> Some (result m));
          allVariants =
            (case primaryResult of
               None \<Rightarrow> []
             | Some r \<Rightarrow>
                 (case baseline r of None \<Rightarrow> [] | Some b \<Rightarrow> [allVariants_entry b])
                 @ (case variant_results r of None \<Rightarrow> [] | Some vs \<Rightarrow> map allVariants_entry vs));
          probability0 =
            (case primaryResult of
               None \<Rightarrow> []
             | Some r \<Rightarrow> (case baseline r of None \<Rightarrow> [] | Some b \<Rightarrow> add_chance_to_win [] b));
          probability =
            (case primaryResult of
               None \<Rightarrow> probability0
             | Some r \<Rightarrow>
                 (case variant_results r of
                    None \<Rightarrow> probability0
                  | Some vs \<Rightarrow> foldl add_chance_to_win probability0 vs));
          primary_metric_results =
            map (\<lambda>m.
                  \<lparr>action_name = name (metric m),
                   action_id = uuid (metric m),
                   pm_variants =
                     (case baseline (result m) of None \<Rightarrow> [] | Some b \<Rightarrow> [metric_variant_entry b])
                     @ map metric_variant_entry
                         (case variant_results (result m) of None \<Rightarrow> [] | Some vs \<Rightarrow> vs)\<rparr>)
                metricResults
      in \<lparr>rd_variants = allVariants,
          rd_probability = probability,
          rd_significant =
            (case primaryResult of None \<Rightarrow> False | Some r \<Rightarrow> nullish_default (significant r) False),
          rd_credible_intervals =
            (case primaryResult of None \<Rightarrow> [] | Some r \<Rightarrow> nullish_default (credible_intervals r) []),
          rd_primary_metric_results = primary_metric_results\<rparr>)"

text \<open>
  The handler \<open>GET\<close>. The two header values and the outcome of every request are its
  inputs: a request is rejected (\<open>fetch\<close> or \<open>json()\<close> throws), answered with a status
  that is not ok, or answered with a body. \<open>queryResponse i\<close> is the outcome of the
  query for the metric at index \<open>i\<close>.
\<close>

datatype 'a fetched = Fetch_rejected | Fetch_not_ok nat | Fetch_ok 'a

record Experiment =
  metrics :: "ExperimentMetric list option"

datatype route_response =
    Missing_headers
  | Failed_to_fetch_experiment nat
  | No_results string
  | Transformed ExperimentResultsData
  | Failed_to_fetch_results

text \<open>\<open>!s\<close> for a header value: \<open>null\<close> and the empty string are falsy.\<close>

fun missing :: "string option \<Rightarrow> bool" where
  "missing None = True"
| "missing (Some s) = (s = [])"

text \<open>What the callback mapped over \<open>experiment.metrics\<close> settles to.\<close>

datatype settled = Thrown | Returned "MetricResult option"

definition query_metric :: "ExperimentMetric \<Rightarrow> QueryResult fetched \<Rightarrow> settled" where
  "query_metric m queryResponse =
     (case queryResponse of
        Fetch_rejected \<Rightarrow> Thrown
      | Fetch_not_ok status \<Rightarrow> Returned None
      | Fetch_ok r \<Rightarrow> Returned (Some \<lparr>metric = m, result = r\<rparr>))"

definition GET ::
    "string option \<Rightarrow> string option \<Rightarrow> Experiment fetched \<Rightarrow> (nat \<Rightarrow> QueryResult fetched)
       \<Rightarrow> route_response" where
  "GET apiKey projectId experimentResponse queryResponse =
     (if missing apiKey \<or> missing projectId then Missing_headers
      else
        (case experimentResponse of
           Fetch_rejected \<Rightarrow> Failed_to_fetch_results
         | Fetch_not_ok status \<Rightarrow> Failed_to_fetch_experiment status
         | Fetch_ok experiment \<Rightarrow>
             (case metrics experiment of
                None \<Rightarrow> No_results ''No metrics configured''
              | Some ms \<Rightarrow>
                  if length ms = 0 then No_results ''No metrics configured''
                  else
                    (let metricResults =
                           map (\<lambda>(i, m). query_metric m (queryResponse i)) (enumerate 0 ms)
                     in if Thrown \<in> set metricResults then Failed_to_fetch_results
                        else
                          (let validResults =
                                 concat (map (\<lambda>s. case s of Returned (Some r) \<Rightarrow> [r] | _ \<Rightarrow> [])
                                             metricResults)
                           in if length validResults = 0
                              then No_results ''No valid metric results''
                              else Transformed (transformResults validResults))))))"


section \<open>The component \<open>ExperimentResults\<close>\<close>

text \<open>\<open>variant.absolute_exposure || variant.count || 0\<close>.\<close>

definition exposures :: "VariantResult \<Rightarrow> rat" where
  "exposures variant =
     (if vr_absolute_exposure variant \<noteq> 0 then vr_absolute_exposure variant
      else if vr_count variant \<noteq> 0 then vr_count variant else 0)"

definition totalExposures :: "VariantResult list \<Rightarrow> rat" where
  "totalExposures variants = foldl (\<lambda>sum v. sum + exposures v) 0 variants"

definition exposurePercent :: "VariantResult list \<Rightarrow> VariantResult \<Rightarrow> number" where
  "exposurePercent variants variant =
     (if 0 < totalExposures variants
      then js_mul (js_div (Fin (exposures variant)) (Fin (totalExposures variants))) (Fin 100)
      else Fin 0)"

text \<open>The accumulator \<open>{ key, prob }\<close> of the search for the winning variant.\<close>

record Winning =
  wv_key :: string
  wv_prob :: rat

definition winningVariant :: "rat object \<Rightarrow> Winning" where
  "winningVariant probability =
     foldl (\<lambda>best (k, prob). if prob > wv_prob best then \<lparr>wv_key = k, wv_prob = prob\<rparr> else best)
           \<lparr>wv_key = '''', wv_prob = 0\<rparr>
           (Object_entries probability)"

text \<open>
  \<open>conversionRate\<close> of one variant of a metric: \<open>None\<close> is \<open>null\<close>. The fields are
  optional numbers, as \<open>MetricResult\<close> declares them.
\<close>

definition conversionRate :: "MetricVariant \<Rightarrow> number option" where
  "conversionRate v =
     (case mv_exposure v of
        None \<Rightarrow> None
      | Some exposure \<Rightarrow>
          if exposure = 0 then None
          else
            (case mv_success_count v of
               None \<Rightarrow> None
             | Some success \<Rightarrow> Some (js_mul (js_div (Fin success) (Fin exposure)) (Fin 100))))"


section \<open>Notions used to state the properties\<close>

text \<open>
  The variant samples of one query result in the order in which \<open>transformResults\<close>
  reads them: the baseline, when there is one, then the elements of \<open>variant_results\<close>.
\<close>

definition samples :: "QueryResult \<Rightarrow> VariantData list" where
  "samples r =
     (case baseline r of None \<Rightarrow> [] | Some b \<Rightarrow> [b])
     @ (case variant_results r of None \<Rightarrow> [] | Some vs \<Rightarrow> vs)"


section \<open>Properties of the traffic allocation\<close>

lemma Math_floor_js_div_of_int:
  "0 < n \<Longrightarrow> Math_floor (js_div (Fin (of_int t)) (Fin (of_nat n))) = Fin (of_int (t div int n))"
proof -
  assume "0 < n"
  have "\<lfloor>(of_int t :: rat) / of_int (int n)\<rfloor> = t div int n"
    by (rule floor_divide_of_int_eq)
  with \<open>0 < n\<close> show ?thesis by simp
qed

lemma rat_index_less_iff:
  "(rat_of_nat a < rat_of_int t - rat_of_int d * rat_of_nat n) = (int a < t - d * int n)"
proof -
  have "rat_of_int t - rat_of_int d * rat_of_nat n = rat_of_int (t - d * int n)" by simp
  moreover have "rat_of_nat a = rat_of_int (int a)" by simp
  ultimately show ?thesis by (simp only: of_int_less_iff)
qed

text \<open>With a non-empty list and an integer rollout all intermediate values are finite.\<close>

lemma allocation_finite:
  assumes "allVariants \<noteq> []"
  shows "allocation allVariants (Fin (of_int t)) =
           map (\<lambda>(i, k). \<lparr>flag_key = k, rollout_percentage =
                   Fin (of_int (t div int (length allVariants)
                          + (if int i < t - t div int (length allVariants) * int (length allVariants) then 1 else 0)))\<rparr>)
               (enumerate 0 allVariants)"
proof -
  have n: "0 < length allVariants" using assms by simp
  show ?thesis
    unfolding allocation_def Let_def Math_floor_js_div_of_int [OF n]
    by (rule map_cong [OF refl]) (auto simp: js_sub_def rat_index_less_iff)
qed

text \<open>Line 227 passes every integer other than 0 on as it is.\<close>

lemma featureFlagVariants_truthy:
  "t \<noteq> 0 \<Longrightarrow> featureFlagVariants allVariants (Some (Fin (of_int t))) = allocation allVariants (Fin (of_int t))"
  by (simp add: featureFlagVariants_def effectiveRollout_def)

lemma featureFlagVariants_finite:
  assumes "allVariants \<noteq> []" and "t \<noteq> 0"
  shows "featureFlagVariants allVariants (Some (Fin (of_int t))) =
           map (\<lambda>(i, k). \<lparr>flag_key = k, rollout_percentage =
                   Fin (of_int (t div int (length allVariants)
                          + (if int i < t - t div int (length allVariants) * int (length allVariants) then 1 else 0)))\<rparr>)
               (enumerate 0 allVariants)"
  unfolding featureFlagVariants_truthy [OF assms(2)] by (rule allocation_finite [OF assms(1)])

text \<open>
  The values the range input can set are the multiples of 10 from 10 to 100; none of them
  is falsy, so for each of them the effective rollout is the value itself.
\<close>

lemma rollout_choices_eq: "rollout_choices = [10, 20, 30, 40, 50, 60, 70, 80, 90, 100]"
  by code_simp

lemma effectiveRollout_choice:
  assumes "t \<in> set rollout_choices"
  shows "effectiveRollout (Some (Fin (of_int t))) = Fin (of_int t)" and "1 \<le> t" and "t \<le> 100"
  using assms unfolding rollout_choices_eq by (auto simp: effectiveRollout_def)

text \<open>What line 227 does with a value that is missing, and would do with a falsy one.\<close>

lemma effectiveRollout_falsy:
  "effectiveRollout (Some (Fin 0)) = Fin 100" "effectiveRollout None = Fin 100"
  "effectiveRollout (Some NaN) = Fin 100"
  by (simp_all add: effectiveRollout_def)

lemma featureFlagVariants_zero_is_default:
  "featureFlagVariants allVariants (Some (Fin 0)) = featureFlagVariants allVariants (Some (Fin (of_int 100)))"
  "featureFlagVariants allVariants None = featureFlagVariants allVariants (Some (Fin (of_int 100)))"
  by (simp_all add: featureFlagVariants_def effectiveRollout_def)

lemma effectiveRollout_truthy: "truthy (effectiveRollout targeting_rollout_percentage)"
  by (cases targeting_rollout_percentage) (simp_all add: effectiveRollout_def)

lemma featureFlagVariants_fixed_eq:
  "featureFlagVariants_fixed allVariants = featureFlagVariants allVariants None"
  by (simp add: featureFlagVariants_fixed_def featureFlagVariants_def effectiveRollout_def)

text \<open>The earlier version of the component allocates as the present one does for 100.\<close>

lemma featureFlagVariants_fixed_allocation:
  assumes "allVariants \<noteq> []"
  shows "featureFlagVariants_fixed allVariants =
           map (\<lambda>(i, k). \<lparr>flag_key = k, rollout_percentage =
                   Fin (of_int (100 div int (length allVariants)
                          + (if int i < 100 - 100 div int (length allVariants) * int (length allVariants)
                             then 1 else 0)))\<rparr>)
               (enumerate 0 allVariants)"
proof -
  have "featureFlagVariants_fixed allVariants = allocation allVariants (Fin (of_int 100))"
    by (simp add: featureFlagVariants_fixed_def)
  then show ?thesis
    by (simp only: allocation_finite [OF assms])
qed

text \<open>Over an empty list the base percentage is infinite and the remainder is \<open>NaN\<close>.\<close>

lemma empty_list_intermediate_values:
  "Math_floor (js_div (Fin 100) (Fin (of_nat (length ([] :: string list))))) = PosInf"
  "js_sub (Fin 100) (js_mul PosInf (Fin (of_nat (length ([] :: string list))))) = NaN"
  by (simp_all add: js_sub_def)

lemma sum_extra_points:
  "0 \<le> r \<Longrightarrow> r \<le> int n \<Longrightarrow> (\<Sum>i<n. (if int i < r then 1 else 0 :: int)) = r"
proof (induction n)
  case 0
  then show ?case by simp
next
  case (Suc n)
  show ?case
  proof (cases "r \<le> int n")
    case True
    with Suc show ?thesis by simp
  next
    case False
    with Suc.prems have r: "r = int n + 1" by simp
    have "(\<Sum>i<n. (if int i < r then 1 else 0 :: int)) = (\<Sum>i<n. 1)"
      by (rule sum.cong) (auto simp: r)
    then show ?thesis by (simp add: r)
  qed
qed

lemma remainder_bounds:
  assumes "0 < n"
  shows "0 \<le> t - t div int n * int n" and "t - t div int n * int n < int n"
proof -
  have r: "t - t div int n * int n = t mod int n" by (simp add: minus_div_mult_eq_mod)
  show "0 \<le> t - t div int n * int n" using assms unfolding r by simp
  show "t - t div int n * int n < int n" using assms unfolding r by simp
qed

lemma sum_percentages:
  assumes "0 < n"
  shows "(\<Sum>i<n. t div int n + (if int i < t - t div int n * int n then 1 else 0)) = t"
proof -
  let ?r = "t - t div int n * int n"
  have "0 \<le> ?r" "?r \<le> int n" using remainder_bounds [OF assms, of t] by simp_all
  then have "(\<Sum>i<n. (if int i < ?r then 1 else 0 :: int)) = ?r" by (rule sum_extra_points)
  then have "(\<Sum>i<n. t div int n + (if int i < ?r then 1 else 0)) = int n * (t div int n) + ?r"
    by (simp add: sum.distrib)
  then show ?thesis by (simp add: algebra_simps)
qed

text \<open>Adding up a list of finite numbers with \<open>+\<close>, as \<open>reduce\<close> would.\<close>

lemma foldl_js_add_Fin:
  "foldl js_add (Fin a) (map (\<lambda>x. Fin (f x)) xs) = Fin (a + sum_list (map f xs))"
  by (induction xs arbitrary: a) (simp_all add: add.assoc)

lemma sum_list_enumerate:
  "sum_list (map (\<lambda>p. f (fst p)) (enumerate 0 xs)) = (\<Sum>i<length xs. f i)"
proof -
  have "map (\<lambda>p. f (fst p)) (enumerate 0 xs) = map f [0..<length xs]"
    by (rule nth_equalityI) (simp_all add: nth_enumerate_eq)
  then show ?thesis
    by (simp add: interv_sum_list_conv_sum_set_nat atLeast0LessThan)
qed

lemma allocated_total:
  assumes "allVariants \<noteq> []"
  shows "foldl js_add (Fin 0)
           (map rollout_percentage (allocation allVariants (Fin (of_int t)))) = Fin (of_int t)"
proof -
  let ?n = "length allVariants"
  let ?p = "\<lambda>i. t div int ?n + (if int i < t - t div int ?n * int ?n then 1 else 0)"
  have n: "0 < ?n" using assms by simp
  have "map rollout_percentage (allocation allVariants (Fin (of_int t))) =
          map (\<lambda>p. Fin (of_int (?p (fst p)))) (enumerate 0 allVariants)"
    unfolding allocation_finite [OF assms] by (simp add: case_prod_beta)
  then have "foldl js_add (Fin 0)
               (map rollout_percentage (allocation allVariants (Fin (of_int t)))) =
             Fin (0 + sum_list (map (\<lambda>p. of_int (?p (fst p))) (enumerate 0 allVariants)))"
    by (simp only: foldl_js_add_Fin)
  also have "sum_list (map (\<lambda>p. rat_of_int (?p (fst p))) (enumerate 0 allVariants)) =
               (\<Sum>i<?n. rat_of_int (?p i))"
    by (rule sum_list_enumerate)
  also have "(\<Sum>i<?n. rat_of_int (?p i)) = rat_of_int (\<Sum>i<?n. ?p i)" by simp
  also have "(\<Sum>i<?n. ?p i) = t" by (rule sum_percentages [OF n])
  finally show ?thesis by simp
qed

text \<open>
  Claim C1. For a non-empty list of variant keys of length \<open>n\<close> and an integer total
  rollout \<open>t\<close> from 0 to 100 (the number that line 228 divides), the variant at zero-based
  index \<open>i\<close> is allocated \<open>base + (if i < remainder then 1 else 0)\<close> with
  \<open>base = t div n\<close> and \<open>remainder = t - base * n\<close>; the keys keep their order, the
  allocated percentages add up to \<open>t\<close>, and \<open>0 \<le> remainder < n\<close>, so exactly the first
  \<open>remainder\<close> variants get the extra point. For every \<open>t\<close> other than 0, and so for
  every value the range input can set, this is the list \<open>featureFlagVariants\<close> that
  \<open>createExperiment\<close> sends.
\<close>

theorem allocation_formula:
  assumes "allVariants \<noteq> []" and "0 \<le> t" and "t \<le> 100"
  shows "let n = int (length allVariants); base = t div n; remainder = t - base * n;
             percentage = (\<lambda>i. base + (if int i < remainder then 1 else 0));
             allocated = allocation allVariants (Fin (of_int t))
         in allocated = map (\<lambda>(i, k). \<lparr>flag_key = k, rollout_percentage = Fin (of_int (percentage i))\<rparr>)
                            (enumerate 0 allVariants)
            \<and> foldl js_add (Fin 0) (map rollout_percentage allocated) = Fin (of_int t)
            \<and> 0 \<le> remainder \<and> remainder < n
            \<and> (t \<noteq> 0 \<longrightarrow> featureFlagVariants allVariants (Some (Fin (of_int t))) = allocated)"
proof -
  have n: "0 < length allVariants" using assms(1) by simp
  show ?thesis
    unfolding Let_def
    using allocation_finite [OF assms(1), of t] allocated_total [OF assms(1), of t]
      remainder_bounds [OF n, of t] featureFlagVariants_truthy [of t allVariants]
    by simp
qed

theorem allocation_formula_witness:
  "allocation [''control'', ''a'', ''b''] (Fin 100) =
     [\<lparr>flag_key = ''control'', rollout_percentage = Fin 34\<rparr>,
      \<lparr>flag_key = ''a'', rollout_percentage = Fin 33\<rparr>,
      \<lparr>flag_key = ''b'', rollout_percentage = Fin 33\<rparr>]
   \<and> foldl js_add (Fin 0)
        (map rollout_percentage (allocation [''control'', ''a'', ''b''] (Fin 100))) = Fin 100
   \<and> featureFlagVariants [''control'', ''a'', ''b''] (Some (Fin 100)) =
        allocation [''control'', ''a'', ''b''] (Fin 100)"
  using allocation_formula [of "[''control'', ''a'', ''b'']" 100]
  by (simp add: Let_def enumerate_eq_zip)

text \<open>
  Claim C3 (as amended). No operation of the allocation raises: on an empty list the
  division gives an infinity, the remainder is \<open>NaN\<close> and \<open>map\<close> returns the empty
  list. \<open>createExperiment\<close> never allocates over an empty list, since it puts
  \<open>control\<close> in front of the variants it read: its allocation has one entry more than
  there are variants, in the order \<open>control\<close>, then the variants.
\<close>

theorem featureFlagVariants_never_raises:
  "featureFlagVariants [] targeting_rollout_percentage = []
   \<and> length (createExperiment_featureFlagVariants variants targeting_rollout_percentage) = Suc (length variants)
   \<and> map flag_key (createExperiment_featureFlagVariants variants targeting_rollout_percentage) = ''control'' # variants"
  by (simp add: featureFlagVariants_def allocation_def createExperiment_featureFlagVariants_def
      createExperiment_allVariants_def Let_def case_prod_beta comp_def enumerate_eq_zip)

text \<open>The allocation over no keys at all is the empty list, returned as any other result.\<close>

theorem featureFlagVariants_empty_counterexample:
  "featureFlagVariants [] (Some (Fin 100)) = []"
  by (simp add: featureFlagVariants_def allocation_def)

text \<open>
  Claim C4. For a non-empty list of variant keys and a total rollout of 0, the arithmetic
  of lines 228 to 234 allocates 0 to every variant, the keys in their order.
\<close>

theorem allocation_zero_rollout:
  assumes "allVariants \<noteq> []"
  shows "allocation allVariants (Fin 0) =
           map (\<lambda>k. \<lparr>flag_key = k, rollout_percentage = Fin 0\<rparr>) allVariants"
proof -
  have "allocation allVariants (Fin 0) =
          map (\<lambda>p. \<lparr>flag_key = snd p, rollout_percentage = Fin 0\<rparr>) (enumerate 0 allVariants)"
    using assms by (simp add: allocation_def js_sub_def case_prod_beta)
  also have "\<dots> = map (\<lambda>k. \<lparr>flag_key = k, rollout_percentage = Fin 0\<rparr>) allVariants"
    by (rule nth_equalityI) (simp_all add: nth_enumerate_eq)
  finally show ?thesis .
qed

theorem allocation_zero_rollout_witness:
  "allocation [''control'', ''variant_a'', ''variant_b''] (Fin 0) =
     [\<lparr>flag_key = ''control'', rollout_percentage = Fin 0\<rparr>,
      \<lparr>flag_key = ''variant_a'', rollout_percentage = Fin 0\<rparr>,
      \<lparr>flag_key = ''variant_b'', rollout_percentage = Fin 0\<rparr>]"
  using allocation_zero_rollout [of "[''control'', ''variant_a'', ''variant_b'']"]
  by simp

section \<open>Properties of \<open>transformResults\<close>\<close>

lemma rd_variants_Cons:
  "rd_variants (transformResults (m # ms)) = map allVariants_entry (samples (result m))"
  by (simp add: transformResults_def samples_def Let_def split: option.splits)

lemma rd_variants_Nil: "rd_variants (transformResults []) = []"
  by (simp add: transformResults_def Let_def)

lemma rd_primary_metric_results_eq:
  "map pm_variants (rd_primary_metric_results (transformResults metricResults)) =
     map (\<lambda>m. map metric_variant_entry (samples (result m))) metricResults"
  by (simp add: transformResults_def samples_def comp_def Let_def split: option.splits)

lemma rd_probability_Cons:
  "rd_probability (transformResults (m # ms)) = foldl add_chance_to_win [] (samples (result m))"
  by (simp add: transformResults_def samples_def Let_def split: option.splits)

lemma or_zero_eq: "or_zero n = (case n of None \<Rightarrow> 0 | Some x \<Rightarrow> x)"
  by (cases n) simp_all

lemma pm_variants_field:
  "map (\<lambda>pm. map f (pm_variants pm)) (rd_primary_metric_results (transformResults metricResults)) =
     map (\<lambda>m. map (\<lambda>v. f (metric_variant_entry v)) (samples (result m))) metricResults"
proof -
  have "map (\<lambda>pm. map f (pm_variants pm)) (rd_primary_metric_results (transformResults metricResults)) =
        map (map f) (map pm_variants (rd_primary_metric_results (transformResults metricResults)))"
    by (simp add: comp_def)
  then show ?thesis
    by (simp only: rd_primary_metric_results_eq) (simp add: comp_def)
qed

text \<open>
  Claim C10. In the list \<open>variants\<close> of the result the keys are those of the samples of
  the first metric, baseline first and then the other variants in the order received;
  \<open>count\<close> is \<open>number_of_samples\<close>, or 0 when that is missing, and
  \<open>absolute_exposure\<close> is equal to \<open>count\<close>. In every entry of
  \<open>primary_metric_results\<close> the variants are those of that metric in the same order,
  \<open>exposure\<close> is \<open>number_of_samples\<close> or 0, and \<open>absolute_exposure\<close> is equal
  to \<open>exposure\<close>.
\<close>

theorem transformResults_exposure:
  "map vr_key (rd_variants (transformResults (m # ms))) = map key (samples (result m))
   \<and> map vr_count (rd_variants (transformResults (m # ms))) =
       map (\<lambda>v. case number_of_samples v of None \<Rightarrow> 0 | Some n \<Rightarrow> n) (samples (result m))
   \<and> map vr_absolute_exposure (rd_variants (transformResults (m # ms))) =
       map vr_count (rd_variants (transformResults (m # ms)))
   \<and> rd_variants (transformResults []) = []
   \<and> map (\<lambda>pm. map mv_key (pm_variants pm)) (rd_primary_metric_results (transformResults metricResults)) =
       map (\<lambda>m. map key (samples (result m))) metricResults
   \<and> map (\<lambda>pm. map mv_exposure (pm_variants pm)) (rd_primary_metric_results (transformResults metricResults)) =
       map (\<lambda>m. map (\<lambda>v. Some (case number_of_samples v of None \<Rightarrow> 0 | Some n \<Rightarrow> n)) (samples (result m)))
           metricResults
   \<and> map (\<lambda>pm. map mv_absolute_exposure (pm_variants pm)) (rd_primary_metric_results (transformResults metricResults)) =
       map (\<lambda>pm. map mv_exposure (pm_variants pm)) (rd_primary_metric_results (transformResults metricResults))"
  unfolding rd_variants_Cons rd_variants_Nil pm_variants_field
  by (simp add: allVariants_entry_def metric_variant_entry_def or_zero_eq comp_def)

lemma variantCount_eq:
  "variantCount v =
     (case step_counts v of
        Some (c # cs) \<Rightarrow> c
      | _ \<Rightarrow> (case sum_value v of
                Some s \<Rightarrow> s
              | None \<Rightarrow> (case success_count v of Some n \<Rightarrow> n | None \<Rightarrow> 0)))"
  by (simp add: variantCount_def first_step_count_def split: option.splits list.splits)

lemma mv_success_count_eq:
  "mv_success_count (metric_variant_entry v) =
     (case step_counts v of
        Some (c # cs) \<Rightarrow> Some c
      | _ \<Rightarrow> (case sum_value v of Some s \<Rightarrow> Some s | None \<Rightarrow> success_count v))"
  by (simp add: metric_variant_entry_def first_step_count_def split: option.splits list.splits)

text \<open>
  Claim C2 (as amended). In the list \<open>variants\<close> of the result, \<open>success_count\<close> is the
  first step count when there is one, else \<open>sum\<close>, else the field \<open>success_count\<close>,
  else 0. In the variants of each entry of \<open>primary_metric_results\<close> the precedence is
  the same but there is no final 0: \<open>success_count\<close> stays undefined when none of the
  three is present.
\<close>

theorem success_count_precedence:
  "map vr_success_count (rd_variants (transformResults (m # ms))) =
     map (\<lambda>v. Some (case step_counts v of
                       Some (c # cs) \<Rightarrow> c
                     | _ \<Rightarrow> (case sum_value v of
                               Some s \<Rightarrow> s
                             | None \<Rightarrow> (case success_count v of Some n \<Rightarrow> n | None \<Rightarrow> 0))))
         (samples (result m))
   \<and> map (\<lambda>pm. map mv_success_count (pm_variants pm))
         (rd_primary_metric_results (transformResults metricResults)) =
     map (\<lambda>m. map (\<lambda>v. case step_counts v of
                          Some (c # cs) \<Rightarrow> Some c
                        | _ \<Rightarrow> (case sum_value v of Some s \<Rightarrow> Some s | None \<Rightarrow> success_count v))
                  (samples (result m)))
         metricResults"
  unfolding rd_variants_Cons pm_variants_field
  by (simp add: allVariants_entry_def variantCount_eq mv_success_count_eq comp_def)

text \<open>A sample with a first step count of 40 and a sum of 999 resolves to 40 in both places.\<close>

theorem success_count_precedence_witness:
  "map vr_success_count (rd_variants (transformResults
      [\<lparr>metric = \<lparr>name = ''CTA Clicks'', uuid = ''m1''\<rparr>,
        result = \<lparr>baseline = Some \<lparr>key = ''control'', number_of_samples = Some 100, step_counts = Some [40, 12],
                                  success_count = None, failure_count = None, chance_to_win = None,
                                  sum_value = Some 999\<rparr>,
                  variant_results = Some [], significant = None, credible_intervals = None\<rparr>\<rparr>])) = [Some 40]
   \<and> map (\<lambda>pm. map mv_success_count (pm_variants pm)) (rd_primary_metric_results (transformResults
      [\<lparr>metric = \<lparr>name = ''CTA Clicks'', uuid = ''m1''\<rparr>,
        result = \<lparr>baseline = Some \<lparr>key = ''control'', number_of_samples = Some 100, step_counts = Some [40, 12],
                                  success_count = None, failure_count = None, chance_to_win = None,
                                  sum_value = Some 999\<rparr>,
                  variant_results = Some [], significant = None, credible_intervals = None\<rparr>\<rparr>])) = [[Some 40]]"
  using success_count_precedence
    [of "\<lparr>metric = \<lparr>name = ''CTA Clicks'', uuid = ''m1''\<rparr>,
        result = \<lparr>baseline = Some \<lparr>key = ''control'', number_of_samples = Some 100, step_counts = Some [40, 12],
                                  success_count = None, failure_count = None, chance_to_win = None,
                                  sum_value = Some 999\<rparr>,
                  variant_results = Some [], significant = None, credible_intervals = None\<rparr>\<rparr>" "[]"
        "[\<lparr>metric = \<lparr>name = ''CTA Clicks'', uuid = ''m1''\<rparr>,
        result = \<lparr>baseline = Some \<lparr>key = ''control'', number_of_samples = Some 100, step_counts = Some [40, 12],
                                  success_count = None, failure_count = None, chance_to_win = None,
                                  sum_value = Some 999\<rparr>,
                  variant_results = Some [], significant = None, credible_intervals = None\<rparr>\<rparr>]"]
  by (simp add: samples_def)

text \<open>
  A sample with no step counts, no sum and no success count: its entry under
  \<open>primary_metric_results\<close> has an undefined \<open>success_count\<close>, not 0.
\<close>

theorem success_count_precedence_counterexample:
  "map (\<lambda>pm. map mv_success_count (pm_variants pm)) (rd_primary_metric_results (transformResults
      [\<lparr>metric = \<lparr>name = ''CTA Clicks'', uuid = ''m1''\<rparr>,
        result = \<lparr>baseline = Some \<lparr>key = ''control'', number_of_samples = Some 100, step_counts = None,
                                  success_count = None, failure_count = None, chance_to_win = None,
                                  sum_value = None\<rparr>,
                  variant_results = Some [], significant = None, credible_intervals = None\<rparr>\<rparr>])) = [[None]]
   \<and> map (\<lambda>pm. map mv_success_count (pm_variants pm)) (rd_primary_metric_results (transformResults
      [\<lparr>metric = \<lparr>name = ''CTA Clicks'', uuid = ''m1''\<rparr>,
        result = \<lparr>baseline = Some \<lparr>key = ''control'', number_of_samples = Some 100, step_counts = None,
                                  success_count = None, failure_count = None, chance_to_win = None,
                                  sum_value = None\<rparr>,
                  variant_results = Some [], significant = None, credible_intervals = None\<rparr>\<rparr>])) \<noteq> [[Some 0]]"
  by (simp add: transformResults_def metric_variant_entry_def first_step_count_def Let_def)

lemma map_of_set_property: "map_of (set_property obj k v) = (map_of obj)(k \<mapsto> v)"
  by (induction obj) (auto simp: fun_eq_iff)

lemma keys_set_property: "fst ` set (set_property obj k v) = insert k (fst ` set obj)"
  by (simp add: dom_map_of_conv_image_fst [symmetric] map_of_set_property)

lemma distinct_set_property: "distinct (map fst obj) \<Longrightarrow> distinct (map fst (set_property obj k v))"
  by (induction obj) (auto simp: keys_set_property)

lemma distinct_add_chance_to_win_step:
  "distinct (map fst obj) \<Longrightarrow> distinct (map fst (add_chance_to_win obj a))"
  by (simp add: add_chance_to_win_def assign_def distinct_set_property split: option.splits)

lemma map_of_add_chance_to_win_step:
  "map_of (add_chance_to_win obj a) k =
     (if key a = k \<and> k \<noteq> ''__proto__''
      then (case chance_to_win a of None \<Rightarrow> map_of obj k | Some p \<Rightarrow> Some p)
      else map_of obj k)"
  by (simp add: add_chance_to_win_def assign_def map_of_set_property split: option.splits)

lemma distinct_add_chance_to_win:
  "distinct (map fst obj) \<Longrightarrow> distinct (map fst (foldl add_chance_to_win obj vs))"
  by (induction vs arbitrary: obj) (simp_all add: distinct_add_chance_to_win_step)

lemma map_of_add_chance_to_win_other:
  "k \<notin> key ` set vs \<Longrightarrow> map_of (foldl add_chance_to_win obj vs) k = map_of obj k"
  by (induction vs arbitrary: obj) (auto simp: map_of_add_chance_to_win_step)

lemma map_of_add_chance_to_win:
  "distinct (map key vs) \<Longrightarrow> v \<in> set vs \<Longrightarrow> key v \<noteq> ''__proto__'' \<Longrightarrow>
     map_of (foldl add_chance_to_win obj vs) (key v) =
       (case chance_to_win v of None \<Rightarrow> map_of obj (key v) | Some p \<Rightarrow> Some p)"
proof (induction vs arbitrary: obj)
  case Nil
  then show ?case by simp
next
  case (Cons a vs)
  show ?case
  proof (cases "v = a")
    case True
    with Cons.prems have "key v \<notin> key ` set vs" by auto
    then have "map_of (foldl add_chance_to_win (add_chance_to_win obj a) vs) (key v) =
                 map_of (add_chance_to_win obj a) (key v)"
      by (rule map_of_add_chance_to_win_other)
    with True Cons.prems(3) show ?thesis
      by (simp add: map_of_add_chance_to_win_step split: option.splits)
  next
    case False
    with Cons.prems have v: "v \<in> set vs" and d: "distinct (map key vs)" and ne: "key a \<noteq> key v"
      by auto
    from Cons.IH [OF d v Cons.prems(3), of "add_chance_to_win obj a"] ne show ?thesis
      by (simp add: map_of_add_chance_to_win_step split: option.splits)
  qed
qed

text \<open>
  When the samples of the first metric have distinct keys, none of them \<open>__proto__\<close>,
  the mapping \<open>probability\<close> holds for the key of each sample exactly its
  \<open>chance_to_win\<close>: the value itself when there is one, and no entry for the key when
  it is \<open>null\<close>.
\<close>

theorem probability_omits_null:
  assumes "distinct (map key (samples (result m)))"
    and "''__proto__'' \<notin> key ` set (samples (result m))"
  shows "(\<forall>v\<in>set (samples (result m)).
            map_of (rd_probability (transformResults (m # ms))) (key v) = chance_to_win v
            \<and> (chance_to_win v = None \<longrightarrow> key v \<notin> fst ` set (rd_probability (transformResults (m # ms)))))
         \<and> distinct (map fst (rd_probability (transformResults (m # ms))))"
proof -
  have "map_of (rd_probability (transformResults (m # ms))) (key v) = chance_to_win v"
    if "v \<in> set (samples (result m))" for v
  proof -
    from that assms(2) have "key v \<noteq> ''__proto__''" by force
    from map_of_add_chance_to_win [OF assms(1) that this, of "[]"] show ?thesis
      unfolding rd_probability_Cons by (simp split: option.splits)
  qed
  moreover have "distinct (map fst (rd_probability (transformResults (m # ms))))"
    unfolding rd_probability_Cons by (rule distinct_add_chance_to_win) simp
  ultimately show ?thesis
    by (auto simp: map_of_eq_None_iff [symmetric] simp del: map_of_eq_None_iff)
qed


theorem probability_omits_null_witness:
  "map_of (rd_probability (transformResults
      [\<lparr>metric = \<lparr>name = ''CTA Clicks'', uuid = ''m1''\<rparr>,
        result = \<lparr>baseline = Some \<lparr>key = ''control'', number_of_samples = Some 1000, step_counts = None,
                                  success_count = None, failure_count = None, chance_to_win = None,
                                  sum_value = Some 250\<rparr>,
                  variant_results = Some [\<lparr>key = ''variant_a'', number_of_samples = Some 1000, step_counts = None,
                                  success_count = None, failure_count = None, chance_to_win = Some (3 / 4),
                                  sum_value = Some 300\<rparr>],
                  significant = None, credible_intervals = None\<rparr>\<rparr>])) ''control'' = None
   \<and> map_of (rd_probability (transformResults
      [\<lparr>metric = \<lparr>name = ''CTA Clicks'', uuid = ''m1''\<rparr>,
        result = \<lparr>baseline = Some \<lparr>key = ''control'', number_of_samples = Some 1000, step_counts = None,
                                  success_count = None, failure_count = None, chance_to_win = None,
                                  sum_value = Some 250\<rparr>,
                  variant_results = Some [\<lparr>key = ''variant_a'', number_of_samples = Some 1000, step_counts = None,
                                  success_count = None, failure_count = None, chance_to_win = Some (3 / 4),
                                  sum_value = Some 300\<rparr>],
                  significant = None, credible_intervals = None\<rparr>\<rparr>])) ''variant_a'' = Some (3 / 4)"
  using probability_omits_null
    [of "\<lparr>metric = \<lparr>name = ''CTA Clicks'', uuid = ''m1''\<rparr>,
        result = \<lparr>baseline = Some \<lparr>key = ''control'', number_of_samples = Some 1000, step_counts = None,
                                  success_count = None, failure_count = None, chance_to_win = None,
                                  sum_value = Some 250\<rparr>,
                  variant_results = Some [\<lparr>key = ''variant_a'', number_of_samples = Some 1000, step_counts = None,
                                  success_count = None, failure_count = None, chance_to_win = Some (3 / 4),
                                  sum_value = Some 300\<rparr>],
                  significant = None, credible_intervals = None\<rparr>\<rparr>" "[]"]
  by (simp add: samples_def)

text \<open>
  Claim C5. A variant whose \<open>chance_to_win\<close> is not \<open>null\<close> should have that value
  copied into \<open>probability\<close> under its key. For the key \<open>__proto__\<close> the assignment of
  lines 231 to 233 creates no property: a variant with that key and a chance to win of
  one half leaves the mapping empty, and its key has no entry.
\<close>

theorem probability_proto_key_dropped:
  "rd_probability (transformResults
      [\<lparr>metric = \<lparr>name = ''CTA Clicks'', uuid = ''m1''\<rparr>,
        result = \<lparr>baseline = Some \<lparr>key = ''control'', number_of_samples = Some 1000, step_counts = None,
                                  success_count = None, failure_count = None, chance_to_win = None,
                                  sum_value = Some 250\<rparr>,
                  variant_results = Some [\<lparr>key = ''__proto__'', number_of_samples = Some 1000, step_counts = None,
                                  success_count = None, failure_count = None, chance_to_win = Some (1 / 2),
                                  sum_value = Some 300\<rparr>],
                  significant = None, credible_intervals = None\<rparr>\<rparr>]) = []
   \<and> map_of (rd_probability (transformResults
      [\<lparr>metric = \<lparr>name = ''CTA Clicks'', uuid = ''m1''\<rparr>,
        result = \<lparr>baseline = Some \<lparr>key = ''control'', number_of_samples = Some 1000, step_counts = None,
                                  success_count = None, failure_count = None, chance_to_win = None,
                                  sum_value = Some 250\<rparr>,
                  variant_results = Some [\<lparr>key = ''__proto__'', number_of_samples = Some 1000, step_counts = None,
                                  success_count = None, failure_count = None, chance_to_win = Some (1 / 2),
                                  sum_value = Some 300\<rparr>],
                  significant = None, credible_intervals = None\<rparr>\<rparr>])) ''__proto__'' \<noteq> Some (1 / 2)"
  by (simp add: transformResults_def Let_def add_chance_to_win_def assign_def)


section \<open>Properties of the route \<open>GET\<close>\<close>

lemma metricResults_by_index:
  "map (\<lambda>(i, m). query_metric m (queryResponse i)) (enumerate 0 ms) =
     map (\<lambda>i. query_metric (ms ! i) (queryResponse i)) [0..<length ms]"
  by (rule nth_equalityI) (simp_all add: nth_enumerate_eq)

lemma valid_of_query_metric:
  "(case query_metric m r of Returned (Some x) \<Rightarrow> [x] | _ \<Rightarrow> []) =
     (case r of Fetch_ok b \<Rightarrow> [\<lparr>metric = m, result = b\<rparr>] | _ \<Rightarrow> [])"
  by (cases r) (simp_all add: query_metric_def)

lemma validResults_by_index:
  "concat (map (\<lambda>s. case s of Returned (Some r) \<Rightarrow> [r] | _ \<Rightarrow> [])
             (map (\<lambda>(i, m). query_metric m (queryResponse i)) (enumerate 0 ms))) =
   concat (map (\<lambda>i. case queryResponse i of Fetch_ok b \<Rightarrow> [\<lparr>metric = ms ! i, result = b\<rparr>] | _ \<Rightarrow> [])
             [0..<length ms])"
  unfolding metricResults_by_index by (simp add: comp_def valid_of_query_metric)

lemma query_metric_Thrown_iff: "query_metric m r = Thrown \<longleftrightarrow> r = Fetch_rejected"
  by (cases r) (simp_all add: query_metric_def)

lemma Thrown_iff_rejected:
  "Thrown \<in> set (map (\<lambda>(i, m). query_metric m (queryResponse i)) (enumerate 0 ms)) \<longleftrightarrow>
     (\<exists>i<length ms. queryResponse i = Fetch_rejected)"
proof -
  have "Thrown \<in> set (map (\<lambda>i. query_metric (ms ! i) (queryResponse i)) [0..<length ms]) \<longleftrightarrow>
          (\<exists>i<length ms. query_metric (ms ! i) (queryResponse i) = Thrown)"
    by (force simp: image_iff)
  then show ?thesis
    unfolding metricResults_by_index by (simp add: query_metric_Thrown_iff)
qed

lemma validResults_empty_iff:
  "concat (map (\<lambda>i. case queryResponse i of Fetch_ok b \<Rightarrow> [\<lparr>metric = ms ! i, result = b\<rparr>] | _ \<Rightarrow> [])
             [0..<length ms]) = [] \<longleftrightarrow>
     (\<forall>i<length ms. \<forall>b. queryResponse i \<noteq> Fetch_ok b)"
  by (auto split: fetched.splits)

lemma GET_fetched:
  assumes "\<not> missing apiKey" and "\<not> missing projectId" and "metrics body = Some ms" and "ms \<noteq> []"
  shows "GET apiKey projectId (Fetch_ok body) queryResponse =
           (if \<exists>i<length ms. queryResponse i = Fetch_rejected then Failed_to_fetch_results
            else if \<forall>i<length ms. \<forall>b. queryResponse i \<noteq> Fetch_ok b
                 then No_results ''No valid metric results''
                 else Transformed (transformResults
                        (concat (map (\<lambda>i. case queryResponse i of
                                             Fetch_ok b \<Rightarrow> [\<lparr>metric = ms ! i, result = b\<rparr>]
                                           | _ \<Rightarrow> [])
                                     [0..<length ms]))))"
  using assms unfolding GET_def Let_def
  by (simp only: Thrown_iff_rejected validResults_by_index length_0_conv validResults_empty_iff)
     (simp)

text \<open>
  Claim C8 (as amended). With both headers present and the experiment fetched: when the
  experiment has no metrics (none, or an empty list) the route answers with the marker
  \<open>noResults\<close> and the reason \<open>No metrics configured\<close>. When it has metrics: if some
  query is rejected the route answers with the error of status 500; otherwise, if every
  query is answered with a status that is not ok, it answers with \<open>noResults\<close> and the
  reason \<open>No valid metric results\<close>; otherwise it answers with \<open>transformResults\<close> of
  the queries answered with a body, in the order of the metrics. The marker is no
  transformed result, whatever the counts in that result are.
\<close>

theorem GET_outcomes:
  assumes "\<not> missing apiKey" and "\<not> missing projectId"
  shows "(metrics experiment = None \<or> metrics experiment = Some [] \<longrightarrow>
            GET apiKey projectId (Fetch_ok experiment) queryResponse = No_results ''No metrics configured'')
       \<and> (\<forall>ms. metrics experiment = Some ms \<and> ms \<noteq> [] \<longrightarrow>
            GET apiKey projectId (Fetch_ok experiment) queryResponse =
              (if \<exists>i<length ms. queryResponse i = Fetch_rejected then Failed_to_fetch_results
               else if \<forall>i<length ms. \<exists>status. queryResponse i = Fetch_not_ok status
                    then No_results ''No valid metric results''
                    else Transformed (transformResults
                           (concat (map (\<lambda>i. case queryResponse i of
                                                Fetch_ok b \<Rightarrow> [\<lparr>metric = ms ! i, result = b\<rparr>]
                                              | _ \<Rightarrow> [])
                                        [0..<length ms])))))
       \<and> (\<forall>reason r. No_results reason \<noteq> Transformed r)"
proof (intro conjI allI impI)
  assume "metrics experiment = None \<or> metrics experiment = Some []"
  with assms show "GET apiKey projectId (Fetch_ok experiment) queryResponse = No_results ''No metrics configured''"
    by (auto simp: GET_def)
next
  fix ms
  assume a: "metrics experiment = Some ms \<and> ms \<noteq> []"
  have not_ok: "(\<forall>i<length ms. \<forall>b. queryResponse i \<noteq> Fetch_ok b) \<longleftrightarrow>
                  (\<forall>i<length ms. \<exists>status. queryResponse i = Fetch_not_ok status)"
    if "\<not> (\<exists>i<length ms. queryResponse i = Fetch_rejected)"
  proof -
    have "(\<forall>b. queryResponse i \<noteq> Fetch_ok b) \<longleftrightarrow> (\<exists>status. queryResponse i = Fetch_not_ok status)"
      if "i < length ms" for i
      using that \<open>\<not> (\<exists>i<length ms. queryResponse i = Fetch_rejected)\<close>
      by (cases "queryResponse i") auto
    then show ?thesis by blast
  qed
  from a have m: "metrics experiment = Some ms" and ne: "ms \<noteq> []" by simp_all
  show "GET apiKey projectId (Fetch_ok experiment) queryResponse =
              (if \<exists>i<length ms. queryResponse i = Fetch_rejected then Failed_to_fetch_results
               else if \<forall>i<length ms. \<exists>status. queryResponse i = Fetch_not_ok status
                    then No_results ''No valid metric results''
                    else Transformed (transformResults
                           (concat (map (\<lambda>i. case queryResponse i of
                                                Fetch_ok b \<Rightarrow> [\<lparr>metric = ms ! i, result = b\<rparr>]
                                              | _ \<Rightarrow> [])
                                        [0..<length ms]))))"
    unfolding GET_fetched [OF assms m ne] using not_ok by simp
next
  fix reason r show "No_results reason \<noteq> Transformed r" by simp
qed

theorem GET_outcomes_witness:
  "GET (Some ''phx_key'') (Some ''12345'') (Fetch_ok \<lparr>metrics = Some []\<rparr>) (\<lambda>i. Fetch_not_ok 500)
     = No_results ''No metrics configured''
   \<and> GET (Some ''phx_key'') (Some ''12345'')
        (Fetch_ok \<lparr>metrics = Some [\<lparr>name = ''CTA Clicks'', uuid = ''m1''\<rparr>, \<lparr>name = ''Signups'', uuid = ''m2''\<rparr>]\<rparr>)
        (\<lambda>i. Fetch_not_ok 500)
     = No_results ''No valid metric results''
   \<and> GET (Some ''phx_key'') (Some ''12345'')
        (Fetch_ok \<lparr>metrics = Some [\<lparr>name = ''CTA Clicks'', uuid = ''m1''\<rparr>]\<rparr>)
        (\<lambda>i. Fetch_ok \<lparr>baseline = Some \<lparr>key = ''control'', number_of_samples = Some 0, step_counts = None,
                                            success_count = None, failure_count = None, chance_to_win = None,
                                            sum_value = Some 0\<rparr>,
                         variant_results = Some [], significant = None, credible_intervals = None\<rparr>)
     = Transformed
         \<lparr>rd_variants = [\<lparr>vr_key = ''control'', vr_count = 0, vr_absolute_exposure = 0,
                           vr_success_count = Some 0, vr_failure_count = None\<rparr>],
          rd_probability = [], rd_significant = False, rd_credible_intervals = [],
          rd_primary_metric_results =
            [\<lparr>action_name = ''CTA Clicks'', action_id = ''m1'',
              pm_variants = [\<lparr>mv_key = ''control'', mv_count = Some 0, mv_exposure = Some 0,
                              mv_absolute_exposure = Some 0, mv_success_count = Some 0,
                              mv_failure_count = None\<rparr>]\<rparr>]\<rparr>"
proof -
  have k: "\<not> missing (Some ''phx_key'')" and p: "\<not> missing (Some ''12345'')" by simp_all
  from GET_outcomes [OF k p, of "\<lparr>metrics = Some []\<rparr>" "\<lambda>i. Fetch_not_ok 500"]
  have "GET (Some ''phx_key'') (Some ''12345'') (Fetch_ok \<lparr>metrics = Some []\<rparr>) (\<lambda>i. Fetch_not_ok 500)
     = No_results ''No metrics configured''" by simp
  moreover
  from GET_outcomes [OF k p,
      of "\<lparr>metrics = Some [\<lparr>name = ''CTA Clicks'', uuid = ''m1''\<rparr>, \<lparr>name = ''Signups'', uuid = ''m2''\<rparr>]\<rparr>"
         "\<lambda>i. Fetch_not_ok 500"]
  have "GET (Some ''phx_key'') (Some ''12345'')
        (Fetch_ok \<lparr>metrics = Some [\<lparr>name = ''CTA Clicks'', uuid = ''m1''\<rparr>, \<lparr>name = ''Signups'', uuid = ''m2''\<rparr>]\<rparr>)
        (\<lambda>i. Fetch_not_ok 500)
     = No_results ''No valid metric results''" by simp
  moreover
  from GET_outcomes [OF k p,
      of "\<lparr>metrics = Some [\<lparr>name = ''CTA Clicks'', uuid = ''m1''\<rparr>]\<rparr>"
         "\<lambda>i. Fetch_ok \<lparr>baseline = Some \<lparr>key = ''control'', number_of_samples = Some 0, step_counts = None,
                                            success_count = None, failure_count = None, chance_to_win = None,
                                            sum_value = Some 0\<rparr>,
                         variant_results = Some [], significant = None, credible_intervals = None\<rparr>"]
  have "GET (Some ''phx_key'') (Some ''12345'')
        (Fetch_ok \<lparr>metrics = Some [\<lparr>name = ''CTA Clicks'', uuid = ''m1''\<rparr>]\<rparr>)
        (\<lambda>i. Fetch_ok \<lparr>baseline = Some \<lparr>key = ''control'', number_of_samples = Some 0, step_counts = None,
                                            success_count = None, failure_count = None, chance_to_win = None,
                                            sum_value = Some 0\<rparr>,
                         variant_results = Some [], significant = None, credible_intervals = None\<rparr>)
     = Transformed
         \<lparr>rd_variants = [\<lparr>vr_key = ''control'', vr_count = 0, vr_absolute_exposure = 0,
                           vr_success_count = Some 0, vr_failure_count = None\<rparr>],
          rd_probability = [], rd_significant = False, rd_credible_intervals = [],
          rd_primary_metric_results =
            [\<lparr>action_name = ''CTA Clicks'', action_id = ''m1'',
              pm_variants = [\<lparr>mv_key = ''control'', mv_count = Some 0, mv_exposure = Some 0,
                              mv_absolute_exposure = Some 0, mv_success_count = Some 0,
                              mv_failure_count = None\<rparr>]\<rparr>]\<rparr>"
    by (simp add: transformResults_def Let_def allVariants_entry_def metric_variant_entry_def
        variantCount_def first_step_count_def add_chance_to_win_def)
  ultimately show ?thesis by simp
qed

text \<open>
  Every query is rejected (the request throws): the route answers with the error of
  status 500, not with the marker.
\<close>

theorem GET_outcomes_counterexample:
  "GET (Some ''phx_key'') (Some ''12345'')
     (Fetch_ok \<lparr>metrics = Some [\<lparr>name = ''CTA Clicks'', uuid = ''m1''\<rparr>, \<lparr>name = ''Signups'', uuid = ''m2''\<rparr>]\<rparr>)
     (\<lambda>i. Fetch_rejected) = Failed_to_fetch_results
   \<and> GET (Some ''phx_key'') (Some ''12345'')
     (Fetch_ok \<lparr>metrics = Some [\<lparr>name = ''CTA Clicks'', uuid = ''m1''\<rparr>, \<lparr>name = ''Signups'', uuid = ''m2''\<rparr>]\<rparr>)
     (\<lambda>i. Fetch_rejected) \<noteq> No_results ''No valid metric results''"
  by (simp add: GET_def query_metric_def enumerate_eq_zip Let_def)

text \<open>A transformed result is returned only when some query was answered with a body.\<close>

lemma GET_Transformed_only_if:
  assumes "GET apiKey projectId experimentResponse queryResponse = Transformed r"
  shows "\<exists>experiment ms i q. experimentResponse = Fetch_ok experiment \<and> metrics experiment = Some ms
            \<and> i < length ms \<and> queryResponse i = Fetch_ok q"
proof -
  from assms obtain body ms where e: "experimentResponse = Fetch_ok body"
      "metrics body = Some ms" "ms \<noteq> []"
    and t: "Thrown \<notin> set (map (\<lambda>(i, m). query_metric m (queryResponse i)) (enumerate 0 ms))"
    and v: "concat (map (\<lambda>s. case s of Returned (Some r) \<Rightarrow> [r] | _ \<Rightarrow> [])
               (map (\<lambda>(i, m). query_metric m (queryResponse i)) (enumerate 0 ms))) \<noteq> []"
    by (auto simp: GET_def Let_def split: if_splits fetched.splits option.splits)
  have "\<exists>i<length ms. \<exists>q. queryResponse i = Fetch_ok q"
  proof (rule ccontr)
    assume "\<not> (\<exists>i<length ms. \<exists>q. queryResponse i = Fetch_ok q)"
    then have no: "\<And>i. i < length ms \<Longrightarrow> \<forall>q. queryResponse i \<noteq> Fetch_ok q" by blast
    have "\<forall>s \<in> set (map (\<lambda>(i, m). query_metric m (queryResponse i)) (enumerate 0 ms)).
             (case s of Returned (Some r) \<Rightarrow> [r] | _ \<Rightarrow> []) = []"
    proof
      fix s assume "s \<in> set (map (\<lambda>(i, m). query_metric m (queryResponse i)) (enumerate 0 ms))"
      then obtain i where "i < length ms" "s = query_metric (ms ! i) (queryResponse i)"
        by (auto simp: in_set_enumerate_eq)
      with no [of i] show "(case s of Returned (Some r) \<Rightarrow> [r] | _ \<Rightarrow> []) = []"
        by (cases "queryResponse i") (simp_all add: query_metric_def)
    qed
    then have "concat (map (\<lambda>s. case s of Returned (Some r) \<Rightarrow> [r] | _ \<Rightarrow> [])
               (map (\<lambda>(i, m). query_metric m (queryResponse i)) (enumerate 0 ms))) = []"
      by (simp only: concat_eq_Nil_conv set_map) blast
    with v show False by contradiction
  qed
  with e show ?thesis by blast
qed

section \<open>Properties of the component \<open>ExperimentResults\<close>\<close>

text \<open>
  Claim C6. For a variant of a metric whose exposure, when present, is not negative,
  \<open>conversionRate\<close> is \<open>success_count / exposure * 100\<close> when the exposure is greater
  than 0 and a success count is present, and \<open>null\<close> otherwise.
\<close>

theorem conversionRate_formula:
  assumes "\<forall>e. mv_exposure v = Some e \<longrightarrow> 0 \<le> e"
  shows "conversionRate v =
           (case (mv_exposure v, mv_success_count v) of
              (Some e, Some s) \<Rightarrow> if 0 < e then Some (Fin (s / e * 100)) else None
            | _ \<Rightarrow> None)"
  using assms by (auto simp: conversionRate_def split: option.splits)

theorem conversionRate_formula_witness:
  "conversionRate \<lparr>mv_key = ''control'', mv_count = Some 250, mv_exposure = Some 1000,
                    mv_absolute_exposure = Some 1000, mv_success_count = Some 250,
                    mv_failure_count = None\<rparr> = Some (Fin 25)
   \<and> conversionRate \<lparr>mv_key = ''variant_a'', mv_count = Some 300, mv_exposure = Some 1000,
                    mv_absolute_exposure = Some 1000, mv_success_count = Some 300,
                    mv_failure_count = None\<rparr> = Some (Fin 30)
   \<and> conversionRate \<lparr>mv_key = ''variant_b'', mv_count = Some 0, mv_exposure = Some 0,
                    mv_absolute_exposure = Some 0, mv_success_count = Some 0,
                    mv_failure_count = None\<rparr> = None"
  using conversionRate_formula [of "\<lparr>mv_key = ''control'', mv_count = Some 250, mv_exposure = Some 1000,
                    mv_absolute_exposure = Some 1000, mv_success_count = Some 250,
                    mv_failure_count = None\<rparr>"]
    conversionRate_formula [of "\<lparr>mv_key = ''variant_a'', mv_count = Some 300, mv_exposure = Some 1000,
                    mv_absolute_exposure = Some 1000, mv_success_count = Some 300,
                    mv_failure_count = None\<rparr>"]
    conversionRate_formula [of "\<lparr>mv_key = ''variant_b'', mv_count = Some 0, mv_exposure = Some 0,
                    mv_absolute_exposure = Some 0, mv_success_count = Some 0,
                    mv_failure_count = None\<rparr>"]
  by simp

text \<open>
  The example through the route: a baseline with 1000 samples and a sum of 250, a
  variant with 1000 samples and a sum of 300.
\<close>

lemma conversionRate_example:
  "map (\<lambda>pm. map conversionRate (pm_variants pm)) (rd_primary_metric_results (transformResults
      [\<lparr>metric = \<lparr>name = ''CTA Clicks'', uuid = ''m1''\<rparr>,
        result = \<lparr>baseline = Some \<lparr>key = ''control'', number_of_samples = Some 1000, step_counts = None,
                                  success_count = None, failure_count = None, chance_to_win = None,
                                  sum_value = Some 250\<rparr>,
                  variant_results = Some [\<lparr>key = ''variant_a'', number_of_samples = Some 1000, step_counts = None,
                                  success_count = None, failure_count = None, chance_to_win = Some (3 / 4),
                                  sum_value = Some 300\<rparr>],
                  significant = None, credible_intervals = None\<rparr>\<rparr>])) = [[Some (Fin 25), Some (Fin 30)]]"
  by (simp add: transformResults_def metric_variant_entry_def first_step_count_def conversionRate_def Let_def)

lemma totalExposures_foldl:
  "foldl (\<lambda>sum v. sum + exposures v) a variants = a + sum_list (map exposures variants)"
  by (induction variants arbitrary: a) (simp_all add: add.assoc)

text \<open>
  Claim C7. \<open>totalExposures\<close> is the sum of the exposures of all variants. When it is 0
  the percentage of every variant is 0, and no division takes place; when it is greater
  than 0 the percentage of a variant is \<open>exposures / totalExposures * 100\<close>, a finite
  number.
\<close>

theorem exposurePercent_safe:
  "totalExposures variants = sum_list (map exposures variants)
   \<and> (totalExposures variants = 0 \<longrightarrow> exposurePercent variants v = Fin 0)
   \<and> (0 < totalExposures variants \<longrightarrow>
        exposurePercent variants v = Fin (exposures v / totalExposures variants * 100))"
  by (simp add: exposurePercent_def totalExposures_def totalExposures_foldl)

theorem exposurePercent_safe_witness:
  "exposurePercent
     [\<lparr>vr_key = ''control'', vr_count = 0, vr_absolute_exposure = 0, vr_success_count = Some 0, vr_failure_count = None\<rparr>,
      \<lparr>vr_key = ''variant_a'', vr_count = 0, vr_absolute_exposure = 0, vr_success_count = Some 0, vr_failure_count = None\<rparr>]
     \<lparr>vr_key = ''variant_a'', vr_count = 0, vr_absolute_exposure = 0, vr_success_count = Some 0, vr_failure_count = None\<rparr>
     = Fin 0
   \<and> exposurePercent
     [\<lparr>vr_key = ''control'', vr_count = 600, vr_absolute_exposure = 600, vr_success_count = Some 0, vr_failure_count = None\<rparr>,
      \<lparr>vr_key = ''variant_a'', vr_count = 200, vr_absolute_exposure = 200, vr_success_count = Some 0, vr_failure_count = None\<rparr>]
     \<lparr>vr_key = ''variant_a'', vr_count = 200, vr_absolute_exposure = 200, vr_success_count = Some 0, vr_failure_count = None\<rparr>
     = Fin 25"
  using exposurePercent_safe
    [of "[\<lparr>vr_key = ''control'', vr_count = 0, vr_absolute_exposure = 0, vr_success_count = Some 0, vr_failure_count = None\<rparr>,
      \<lparr>vr_key = ''variant_a'', vr_count = 0, vr_absolute_exposure = 0, vr_success_count = Some 0, vr_failure_count = None\<rparr>]"
     "\<lparr>vr_key = ''variant_a'', vr_count = 0, vr_absolute_exposure = 0, vr_success_count = Some 0, vr_failure_count = None\<rparr>"]
    exposurePercent_safe
    [of "[\<lparr>vr_key = ''control'', vr_count = 600, vr_absolute_exposure = 600, vr_success_count = Some 0, vr_failure_count = None\<rparr>,
      \<lparr>vr_key = ''variant_a'', vr_count = 200, vr_absolute_exposure = 200, vr_success_count = Some 0, vr_failure_count = None\<rparr>]"
     "\<lparr>vr_key = ''variant_a'', vr_count = 200, vr_absolute_exposure = 200, vr_success_count = Some 0, vr_failure_count = None\<rparr>"]
  by (simp add: exposures_def)

lemma Object_entries_plain:
  assumes "\<forall>e\<in>set obj. \<not> is_array_index (fst e)"
  shows "Object_entries obj = obj"
proof -
  from assms have "filter (\<lambda>e. is_array_index (fst e)) obj = []"
    by (simp add: filter_empty_conv)
  moreover from assms have "filter (\<lambda>e. \<not> is_array_index (fst e)) obj = obj"
    by (simp add: filter_id_conv)
  ultimately show ?thesis by (simp add: Object_entries_def)
qed

lemma foldl_winner:
  "(if \<forall>e\<in>set es. snd e \<le> 0
    then foldl (\<lambda>best (k, prob). if prob > wv_prob best then \<lparr>wv_key = k, wv_prob = prob\<rparr> else best)
           \<lparr>wv_key = '''', wv_prob = 0\<rparr> es = \<lparr>wv_key = '''', wv_prob = 0\<rparr>
    else \<exists>i<length es.
           foldl (\<lambda>best (k, prob). if prob > wv_prob best then \<lparr>wv_key = k, wv_prob = prob\<rparr> else best)
             \<lparr>wv_key = '''', wv_prob = 0\<rparr> es = \<lparr>wv_key = fst (es ! i), wv_prob = snd (es ! i)\<rparr>
           \<and> 0 < snd (es ! i)
           \<and> (\<forall>j<length es. snd (es ! j) \<le> snd (es ! i))
           \<and> (\<forall>j<i. snd (es ! j) < snd (es ! i)))"
  (is "?P es")
proof (induction es rule: rev_induct)
  case Nil
  show ?case by simp
next
  case (snoc e es)
  let ?f = "\<lambda>best (k, prob). if prob > wv_prob best then \<lparr>wv_key = k, wv_prob = prob\<rparr> else best"
  let ?w = "foldl ?f \<lparr>wv_key = '''', wv_prob = 0\<rparr> es"
  obtain k p where e: "e = (k, p)" by (cases e)
  have step: "foldl ?f \<lparr>wv_key = '''', wv_prob = 0\<rparr> (es @ [e]) =
                (if p > wv_prob ?w then \<lparr>wv_key = k, wv_prob = p\<rparr> else ?w)"
    by (simp add: e)
  show ?case
  proof (cases "\<forall>e\<in>set es. snd e \<le> 0")
    case True
    with snoc.IH have w: "?w = \<lparr>wv_key = '''', wv_prob = 0\<rparr>" by simp
    show ?thesis
    proof (cases "p \<le> 0")
      case True
      with \<open>\<forall>e\<in>set es. snd e \<le> 0\<close> have all: "\<forall>x\<in>set (es @ [e]). snd x \<le> 0" by (simp add: e)
      from True have "foldl ?f \<lparr>wv_key = '''', wv_prob = 0\<rparr> (es @ [e]) = \<lparr>wv_key = '''', wv_prob = 0\<rparr>"
        unfolding step w by simp
      then show ?thesis by (simp only: if_P [OF all])
    next
      case False
      then have pos: "0 < p" by simp
      then have not_all: "\<not> (\<forall>x\<in>set (es @ [e]). snd x \<le> 0)" by (auto simp: e)
      have win: "foldl ?f \<lparr>wv_key = '''', wv_prob = 0\<rparr> (es @ [e]) = \<lparr>wv_key = k, wv_prob = p\<rparr>"
        unfolding step w using pos by simp
      have le: "\<forall>j<length es. snd (es ! j) \<le> 0" using True by simp
      have "length es < length (es @ [e])
            \<and> foldl ?f \<lparr>wv_key = '''', wv_prob = 0\<rparr> (es @ [e]) =
                \<lparr>wv_key = fst ((es @ [e]) ! length es), wv_prob = snd ((es @ [e]) ! length es)\<rparr>
            \<and> 0 < snd ((es @ [e]) ! length es)
            \<and> (\<forall>j<length (es @ [e]). snd ((es @ [e]) ! j) \<le> snd ((es @ [e]) ! length es))
            \<and> (\<forall>j<length es. snd ((es @ [e]) ! j) < snd ((es @ [e]) ! length es))"
        using win pos le by (auto simp: e nth_append less_Suc_eq intro: order_trans less_imp_le le_less_trans)
      then have "\<exists>i<length (es @ [e]).
            foldl ?f \<lparr>wv_key = '''', wv_prob = 0\<rparr> (es @ [e]) =
                \<lparr>wv_key = fst ((es @ [e]) ! i), wv_prob = snd ((es @ [e]) ! i)\<rparr>
            \<and> 0 < snd ((es @ [e]) ! i)
            \<and> (\<forall>j<length (es @ [e]). snd ((es @ [e]) ! j) \<le> snd ((es @ [e]) ! i))
            \<and> (\<forall>j<i. snd ((es @ [e]) ! j) < snd ((es @ [e]) ! i))"
        by blast
      then show ?thesis by (simp only: if_not_P [OF not_all])
    qed
  next
    case False
    with snoc.IH obtain i where i: "i < length es"
      and w: "?w = \<lparr>wv_key = fst (es ! i), wv_prob = snd (es ! i)\<rparr>"
      and pos: "0 < snd (es ! i)"
      and le: "\<forall>j<length es. snd (es ! j) \<le> snd (es ! i)"
      and lt: "\<forall>j<i. snd (es ! j) < snd (es ! i)"
      by auto
    from False have not_all: "\<not> (\<forall>x\<in>set (es @ [e]). snd x \<le> 0)" by auto
    have "\<exists>i'<length (es @ [e]).
            foldl ?f \<lparr>wv_key = '''', wv_prob = 0\<rparr> (es @ [e]) =
                \<lparr>wv_key = fst ((es @ [e]) ! i'), wv_prob = snd ((es @ [e]) ! i')\<rparr>
            \<and> 0 < snd ((es @ [e]) ! i')
            \<and> (\<forall>j<length (es @ [e]). snd ((es @ [e]) ! j) \<le> snd ((es @ [e]) ! i'))
            \<and> (\<forall>j<i'. snd ((es @ [e]) ! j) < snd ((es @ [e]) ! i'))"
    proof (cases "p > snd (es ! i)")
      case True
      have "length es < length (es @ [e])
            \<and> foldl ?f \<lparr>wv_key = '''', wv_prob = 0\<rparr> (es @ [e]) =
                \<lparr>wv_key = fst ((es @ [e]) ! length es), wv_prob = snd ((es @ [e]) ! length es)\<rparr>
            \<and> 0 < snd ((es @ [e]) ! length es)
            \<and> (\<forall>j<length (es @ [e]). snd ((es @ [e]) ! j) \<le> snd ((es @ [e]) ! length es))
            \<and> (\<forall>j<length es. snd ((es @ [e]) ! j) < snd ((es @ [e]) ! length es))"
        unfolding step w using True pos le
        by (auto simp: e nth_append less_Suc_eq intro: le_less_trans less_imp_le order_trans)
      then show ?thesis by blast
    next
      case False
      have "i < length (es @ [e])
            \<and> foldl ?f \<lparr>wv_key = '''', wv_prob = 0\<rparr> (es @ [e]) =
                \<lparr>wv_key = fst ((es @ [e]) ! i), wv_prob = snd ((es @ [e]) ! i)\<rparr>
            \<and> 0 < snd ((es @ [e]) ! i)
            \<and> (\<forall>j<length (es @ [e]). snd ((es @ [e]) ! j) \<le> snd ((es @ [e]) ! i))
            \<and> (\<forall>j<i. snd ((es @ [e]) ! j) < snd ((es @ [e]) ! i))"
        unfolding step w using False pos le lt i
        by (auto simp: e nth_append less_Suc_eq)
      then show ?thesis by blast
    qed
    then show ?thesis by (simp only: if_not_P [OF not_all])
  qed
qed

text \<open>
  Claim C9 (as amended). Let \<open>es\<close> be the entries of the mapping in the order of
  \<open>Object.entries\<close>. When no probability is greater than 0 there is no winning variant:
  the key is the empty string. Otherwise the winning variant is an entry of the highest
  probability, that probability is greater than 0, and every entry before it in \<open>es\<close>
  has a strictly lower probability, so among equal entries the first one wins. When no
  key is an array index, \<open>es\<close> is the mapping in the order in which its keys were added.
\<close>

theorem winningVariant_highest:
  "let es = Object_entries probability in
     (if \<forall>e\<in>set es. snd e \<le> 0
      then winningVariant probability = \<lparr>wv_key = '''', wv_prob = 0\<rparr>
      else \<exists>i<length es.
             winningVariant probability = \<lparr>wv_key = fst (es ! i), wv_prob = snd (es ! i)\<rparr>
             \<and> 0 < snd (es ! i)
             \<and> (\<forall>j<length es. snd (es ! j) \<le> snd (es ! i))
             \<and> (\<forall>j<i. snd (es ! j) < snd (es ! i)))
     \<and> ((\<forall>e\<in>set probability. \<not> is_array_index (fst e)) \<longrightarrow> es = probability)"
  unfolding Let_def winningVariant_def
  using foldl_winner [of "Object_entries probability"] Object_entries_plain [of probability]
  by blast

lemma not_array_index_letter:
  "\<not> is_array_index ''control''" "\<not> is_array_index ''variant_a''"
  by (simp_all add: is_array_index_def is_digit_def)

theorem winningVariant_highest_witness:
  "winningVariant [(''control'', 1 / 2), (''variant_a'', 1 / 2)] = \<lparr>wv_key = ''control'', wv_prob = 1 / 2\<rparr>"
proof -
  have plain: "Object_entries [(''control'', 1 / 2 :: rat), (''variant_a'', 1 / 2)] =
                 [(''control'', 1 / 2), (''variant_a'', 1 / 2)]"
    by (rule Object_entries_plain) (simp add: not_array_index_letter)
  from winningVariant_highest [of "[(''control'', 1 / 2), (''variant_a'', 1 / 2)]"]
  show ?thesis
    unfolding Let_def plain by (auto simp: less_Suc_eq)
qed

text \<open>
  Two entries of probability 0: neither wins. A key that is an array index is listed
  before \<open>control\<close>, although it was added after it, and wins the tie.
\<close>

theorem winningVariant_highest_counterexample:
  "winningVariant [(''control'', 0), (''variant_a'', 0)] = \<lparr>wv_key = '''', wv_prob = 0\<rparr>
   \<and> wv_key (winningVariant [(''control'', 0), (''variant_a'', 0)]) \<noteq> ''control''
   \<and> wv_key (winningVariant [(''control'', 1 / 2), (''1'', 1 / 2)]) = ''1''"
  by code_simp

end
